theory Spec2Isabelle
  imports Main
begin

section \<open>The blog application of \<^verbatim>\<open>main.py\<close>\<close>

text \<open>
  The program is a Flask application over three SQLAlchemy tables. Each view function is
  embedded as a function from the request and the state before it to the response and the
  state after it. The state is the database (three tables, each a list of rows in insertion
  order), the identity that Flask-Login keeps in the session cookie, and the messages
  flashed so far. What the libraries do (Flask's routing, Flask-Login's session,
  SQLAlchemy's unit of work, the constraints of the declared schema) is written out where a
  view function relies on it.
\<close>

subsection \<open>Tables\<close>

text \<open>
  The three model classes. An \<^verbatim>\<open>Integer\<close> primary key is a positive number given by
  the store; a foreign key column is declared without \<^verbatim>\<open>nullable=False\<close>, so
  it may hold \<^verbatim>\<open>NULL\<close> (\<open>None\<close>).
\<close>

record user =
  user_id :: nat
  user_email :: string
  user_password :: string
  user_username :: string

record blog_post =
  post_id :: nat
  post_author_id :: "nat option"
  post_title :: string
  post_subtitle :: string
  post_date :: string
  post_body :: string
  post_img_url :: string

record comment =
  comment_id :: nat
  comment_commenter_id :: "nat option"
  comment_parent_post_id :: "nat option"
  comment_text :: string

record database =
  users :: "user list"
  blog_posts :: "blog_post list"
  comments :: "comment list"

text \<open>
  The exceptions a view function can leave unhandled; Flask answers each of them with a
  500 response, and the transaction of the request is never committed.
\<close>

datatype py_error = AttributeError | IntegrityError | UnmappedInstanceError | OverflowError
  | TypeError | KeyError

subsection \<open>Queries and commits\<close>

text \<open>
  \<^verbatim>\<open>User.query.get(id)\<close>: the row with that primary key, or \<^verbatim>\<open>None\<close>. It is
  called by \<^verbatim>\<open>load_user\<close> only, with the identity that \<^verbatim>\<open>login_user\<close> put into
  the session, which is the key of a stored row.
\<close>

definition user_query_get :: "nat \<Rightarrow> database \<Rightarrow> user option" where
  "user_query_get uid d = find (\<lambda>u. user_id u = uid) (users d)"

text \<open>
  \<^verbatim>\<open>BlogPost.query.get(post_id)\<close>, with the \<^verbatim>\<open>post_id\<close> of the URL: the URL
  converter \<^verbatim>\<open>int\<close> accepts any run of digits, and the store (SQLite by default)
  holds signed 64-bit keys, so binding a larger number raises \<^verbatim>\<open>OverflowError\<close>
  before any row is looked at. Otherwise the result is the row with that key, or
  \<^verbatim>\<open>None\<close>.
\<close>

definition max_key :: nat where
  "max_key = 9223372036854775807"

definition blog_post_query_get :: "nat \<Rightarrow> database \<Rightarrow> py_error + blog_post option" where
  "blog_post_query_get pid d =
     (if max_key < pid then Inl OverflowError
      else Inr (find (\<lambda>p. post_id p = pid) (blog_posts d)))"

text \<open>\<^verbatim>\<open>User.query.filter_by(email=e).first()\<close>.\<close>

definition user_query_filter_by_email :: "string \<Rightarrow> database \<Rightarrow> user option" where
  "user_query_filter_by_email e d = find (\<lambda>u. user_email u = e) (users d)"

text \<open>
  The key the store gives a new row: one more than the largest key of the table, and 1 in
  an empty table (the default store of the program is SQLite, whose integer primary key
  is the row id).
\<close>

definition next_id :: "nat list \<Rightarrow> nat" where
  "next_id ids = Suc (fold max ids 0)"

text \<open>
  \<^verbatim>\<open>db.session.add(row); db.session.commit()\<close> for each table. A commit that breaks
  a \<^verbatim>\<open>unique=True\<close> column of the schema raises \<^verbatim>\<open>IntegrityError\<close> and
  stores nothing.
\<close>

definition add_user :: "string \<Rightarrow> string \<Rightarrow> string \<Rightarrow> database \<Rightarrow> py_error + (user \<times> database)" where
  "add_user e pw name d =
     (if list_ex (\<lambda>u. user_email u = e) (users d) then Inl IntegrityError
      else
        (let u = \<lparr>user_id = next_id (map user_id (users d)), user_email = e,
                  user_password = pw, user_username = name\<rparr>
         in Inr (u, d\<lparr>users := users d @ [u]\<rparr>)))"

definition add_blog_post ::
  "nat option \<Rightarrow> string \<Rightarrow> string \<Rightarrow> string \<Rightarrow> string \<Rightarrow> string \<Rightarrow> database \<Rightarrow> py_error + database" where
  "add_blog_post author t sub dt bd img d =
     (if list_ex (\<lambda>p. post_title p = t) (blog_posts d) then Inl IntegrityError
      else
        (let p = \<lparr>post_id = next_id (map post_id (blog_posts d)), post_author_id = author,
                  post_title = t, post_subtitle = sub, post_date = dt, post_body = bd,
                  post_img_url = img\<rparr>
         in Inr (d\<lparr>blog_posts := blog_posts d @ [p]\<rparr>)))"

definition add_comment :: "nat option \<Rightarrow> nat option \<Rightarrow> string \<Rightarrow> database \<Rightarrow> database" where
  "add_comment commenter parent txt d =
     d\<lparr>comments := comments d @
        [\<lparr>comment_id = next_id (map comment_id (comments d)), comment_commenter_id = commenter,
          comment_parent_post_id = parent, comment_text = txt\<rparr>]\<rparr>"

text \<open>
  The commit of a changed post: an \<^verbatim>\<open>UPDATE\<close> that sets the five assigned columns
  in the row with the post's key. It raises \<^verbatim>\<open>IntegrityError\<close> when another row
  already has the new title.
\<close>

definition update_blog_post ::
  "nat \<Rightarrow> string \<Rightarrow> string \<Rightarrow> string \<Rightarrow> nat option \<Rightarrow> string \<Rightarrow> database \<Rightarrow> py_error + database" where
  "update_blog_post pid t sub img author bd d =
     (if list_ex (\<lambda>q. post_id q \<noteq> pid \<and> post_title q = t) (blog_posts d)
      then Inl IntegrityError
      else Inr (d\<lparr>blog_posts :=
                   map (\<lambda>q. if post_id q = pid
                             then q\<lparr>post_title := t, post_subtitle := sub, post_img_url := img,
                                    post_author_id := author, post_body := bd\<rparr>
                             else q) (blog_posts d)\<rparr>))"

text \<open>
  \<^verbatim>\<open>db.session.delete(post); db.session.commit()\<close>. The relationship
  \<^verbatim>\<open>blogpost_comments\<close> declares no cascade, so the unit of work sets the foreign
  key of the post's comments to \<^verbatim>\<open>NULL\<close> and then deletes the post's row.
\<close>

definition delete_blog_post :: "blog_post \<Rightarrow> database \<Rightarrow> database" where
  "delete_blog_post p d =
     d\<lparr>blog_posts := filter (\<lambda>q. post_id q \<noteq> post_id p) (blog_posts d),
       comments := map (\<lambda>c. if comment_parent_post_id c = Some (post_id p)
                              then c\<lparr>comment_parent_post_id := None\<rparr> else c) (comments d)\<rparr>"

subsection \<open>Session, requests and responses\<close>

record state =
  db :: database
  session_user_id :: "nat option"
  flashes :: "string list"

text \<open>
  \<^verbatim>\<open>load_user\<close> and \<^verbatim>\<open>current_user\<close>: the identity of the session is resolved to
  a row of the user table at each request; with no identity in the session, or one that
  resolves to no row, the current user is Flask-Login's anonymous user (\<open>None\<close>).
\<close>

definition load_user :: "nat \<Rightarrow> database \<Rightarrow> user option" where
  "load_user uid d = user_query_get uid d"

definition current_user :: "state \<Rightarrow> user option" where
  "current_user s = (case session_user_id s of None \<Rightarrow> None | Some uid \<Rightarrow> load_user uid (db s))"

definition login_user :: "user \<Rightarrow> state \<Rightarrow> state" where
  "login_user u s = s\<lparr>session_user_id := Some (user_id u)\<rparr>"

definition logout_user :: "state \<Rightarrow> state" where
  "logout_user s = s\<lparr>session_user_id := None\<rparr>"

definition flash :: "string \<Rightarrow> state \<Rightarrow> state" where
  "flash msg s = s\<lparr>flashes := flashes s @ [msg]\<rparr>"

datatype http_method = GET | POST

text \<open>
  The value of \<^verbatim>\<open>edit_form.author.data\<close>. The form classes are declared in
  \<^verbatim>\<open>forms.py\<close> and \<^verbatim>\<open>main.py\<close> only reads their fields, so the value is an
  input of the request: a mapped user (by key), \<^verbatim>\<open>None\<close>, or anything else (a
  string, or no such field at all), which the relationship attribute
  \<^verbatim>\<open>post.author\<close> refuses with an exception.
\<close>

datatype author_value = Author_user nat | Author_none | Author_other

datatype month = January | February | March | April | May | June | July | August
  | September | October | November | December

record calendar_date =
  date_year :: nat
  date_month :: month
  date_day :: nat

text \<open>
  A request, after URL matching: the rule of \<^verbatim>\<open>main.py\<close> that the URL matched, the
  converted \<^verbatim>\<open>post_id\<close> of the URL when the rule has one, the method, the data of
  the submitted form fields that the view functions read, and the outcome of the form's
  validators (declared in \<^verbatim>\<open>forms.py\<close>).
\<close>

datatype url_rule = Rule_index | Rule_register | Rule_login | Rule_logout | Rule_post
  | Rule_about | Rule_contact | Rule_new_post | Rule_edit_post | Rule_delete

record request =
  req_rule :: url_rule
  req_post_id :: "nat option"
  req_method :: http_method
  form_validates :: bool
  email_data :: string
  username_data :: string
  password_data :: string
  comment_text_data :: string
  title_data :: string
  subtitle_data :: string
  body_data :: string
  img_url_data :: string
  author_data :: author_value

text \<open>
  What a request finds outside the program: the calendar date, and Werkzeug's password
  hashing (\<^verbatim>\<open>generate_password_hash\<close> with the salt it draws, and
  \<^verbatim>\<open>check_password_hash pwhash password\<close>).
\<close>

record world =
  today :: calendar_date
  generate_password_hash :: "string \<Rightarrow> string"
  check_password_hash :: "string \<Rightarrow> string \<Rightarrow> bool"

datatype endpoint = Ep_get_all_posts | Ep_register | Ep_login | Ep_logout | Ep_show_post
  | Ep_about | Ep_contact | Ep_add_new_post | Ep_edit_post | Ep_delete_post

text \<open>
  The templates are files of their own, which \<^verbatim>\<open>main.py\<close> only names; a rendered
  page is kept as the template's name together with the rows handed to it.
\<close>

datatype page = Index_html "blog_post list" | Register_html | Login_html
  | Post_html "blog_post option" | About_html | Contact_html | Make_post_html

text \<open>
  \<open>Render\<close> is the value of \<^verbatim>\<open>render_template\<close>, \<open>Redirect e a\<close> that of
  \<^verbatim>\<open>redirect(url_for(e, post_id=a))\<close>, \<open>Abort n\<close> is \<^verbatim>\<open>abort(n)\<close>, and
  \<open>Fault\<close> an exception that leaves the view function.
\<close>

datatype response = Render page | Redirect endpoint "nat option" | Abort nat | Fault py_error

type_synonym handler = "world \<Rightarrow> request \<Rightarrow> state \<Rightarrow> response \<times> state"

text \<open>\<^verbatim>\<open>form.validate_on_submit()\<close>: the request submits the form and the form validates.\<close>

definition validate_on_submit :: "request \<Rightarrow> bool" where
  "validate_on_submit r = (req_method r = POST \<and> form_validates r)"

subsection \<open>View functions\<close>

text \<open>
  \<^verbatim>\<open>date.today().strftime("%B %d, %Y")\<close>: the full English month name, the day of
  the month as two digits, a comma and the year in decimal digits (four of them for a
  date of the system clock).
\<close>

fun month_name :: "month \<Rightarrow> string" where
  "month_name January = ''January''"
| "month_name February = ''February''"
| "month_name March = ''March''"
| "month_name April = ''April''"
| "month_name May = ''May''"
| "month_name June = ''June''"
| "month_name July = ''July''"
| "month_name August = ''August''"
| "month_name September = ''September''"
| "month_name October = ''October''"
| "month_name November = ''November''"
| "month_name December = ''December''"

definition digit_char :: "nat \<Rightarrow> char" where
  "digit_char d = ''0123456789'' ! (d mod 10)"

function string_of_nat :: "nat \<Rightarrow> string" where
  "string_of_nat n =
     (if n < 10 then [digit_char n] else string_of_nat (n div 10) @ [digit_char (n mod 10)])"
  by pat_completeness auto
termination
  by (relation "measure id") auto

definition zero_pad2 :: "string \<Rightarrow> string" where
  "zero_pad2 ds = (if length ds < 2 then CHR ''0'' # ds else ds)"

text \<open>
  \<^verbatim>\<open>strftime\<close> reads the format from left to right: a percent sign and the letter
  after it are a directive, every other character is copied. The directives of the
  program's format are written out; another letter is left as it stands.
\<close>

definition directive :: "char \<Rightarrow> calendar_date \<Rightarrow> string" where
  "directive k d =
     (if k = CHR ''B'' then month_name (date_month d)
      else if k = CHR ''d'' then zero_pad2 (string_of_nat (date_day d))
      else if k = CHR ''Y'' then string_of_nat (date_year d)
      else if k = CHR ''%'' then [k]
      else [CHR ''%'', k])"

fun strftime :: "string \<Rightarrow> calendar_date \<Rightarrow> string" where
  "strftime [] d = []"
| "strftime [c] d = [c]"
| "strftime (c # k # cs) d =
     (if c = CHR ''%'' then directive k d @ strftime cs d else c # strftime (k # cs) d)"

definition get_all_posts :: handler where
  "get_all_posts w r s = (Render (Index_html (blog_posts (db s))), s)"

definition register :: handler where
  "register w r s =
     (if validate_on_submit r then
        (case user_query_filter_by_email (email_data r) (db s) of
           Some u \<Rightarrow>
             (Redirect Ep_login None,
              flash ''You've already signed up with that email, log in instead!'' s)
         | None \<Rightarrow>
             (case add_user (email_data r) (generate_password_hash w (password_data r))
                     (username_data r) (db s) of
                Inl e \<Rightarrow> (Fault e, s)
              | Inr (new_user, d') \<Rightarrow>
                  (Redirect Ep_get_all_posts None, login_user new_user (s\<lparr>db := d'\<rparr>))))
      else (Render Register_html, s))"

definition login :: handler where
  "login w r s =
     (if validate_on_submit r then
        (case user_query_filter_by_email (email_data r) (db s) of
           None \<Rightarrow> (Redirect Ep_login None, flash ''That email does not exist'' s)
         | Some u \<Rightarrow>
             if \<not> check_password_hash w (user_password u) (password_data r)
             then (Redirect Ep_login None, flash ''Password incorrect, please try again'' s)
             else (Redirect Ep_get_all_posts None, login_user u s))
      else (Render Login_html, s))"

definition logout :: handler where
  "logout w r s = (Redirect Ep_get_all_posts None, logout_user s)"

text \<open>
  \<^verbatim>\<open>show_post\<close>. The post is looked up first, before the form is validated: the
  lookup may raise, and it gives \<^verbatim>\<open>None\<close> when no row has the key; the new comment
  takes the looked-up post as its parent, whatever it is.
\<close>

definition show_post :: "nat \<Rightarrow> handler" where
  "show_post pid w r s =
     (case blog_post_query_get pid (db s) of
        Inl e \<Rightarrow> (Fault e, s)
      | Inr requested_post \<Rightarrow>
          if validate_on_submit r then
            (case current_user s of
               None \<Rightarrow>
                 (Redirect Ep_login None,
                  flash ''You need to log in before posting a comment'' s)
             | Some u \<Rightarrow>
                 (Render (Post_html requested_post),
                  flash ''Comment saved''
                    (s\<lparr>db := add_comment (Some (user_id u)) (map_option post_id requested_post)
                                (comment_text_data r) (db s)\<rparr>)))
          else (Render (Post_html requested_post), s))"

definition about :: handler where
  "about w r s = (Render About_html, s)"

definition contact :: handler where
  "contact w r s = (Render Contact_html, s)"

text \<open>
  \<^verbatim>\<open>add_new_post\<close>. Building the post with \<^verbatim>\<open>author=current_user\<close> raises when
  the current user is the anonymous user, which is no mapped row.
\<close>

definition add_new_post :: handler where
  "add_new_post w r s =
     (if validate_on_submit r then
        (case current_user s of
           None \<Rightarrow> (Fault AttributeError, s)
         | Some u \<Rightarrow>
             (case add_blog_post (Some (user_id u)) (title_data r) (subtitle_data r)
                     (strftime ''%B %d, %Y'' (today w)) (body_data r) (img_url_data r) (db s) of
                Inl e \<Rightarrow> (Fault e, s)
              | Inr d' \<Rightarrow> (Redirect Ep_get_all_posts None, s\<lparr>db := d'\<rparr>)))
      else (Render Make_post_html, s))"

text \<open>
  \<^verbatim>\<open>edit_post\<close>. The form is prefilled from the attributes of the looked-up post, which
  raises \<^verbatim>\<open>AttributeError\<close> when the lookup gave \<^verbatim>\<open>None\<close>.
\<close>

definition edit_post :: "nat \<Rightarrow> handler" where
  "edit_post pid w r s =
     (case blog_post_query_get pid (db s) of
        Inl e \<Rightarrow> (Fault e, s)
      | Inr None \<Rightarrow> (Fault AttributeError, s)
      | Inr (Some post) \<Rightarrow>
          if validate_on_submit r then
            (case author_data r of
               Author_other \<Rightarrow> (Fault AttributeError, s)
             | a \<Rightarrow>
                 (case update_blog_post (post_id post) (title_data r) (subtitle_data r)
                         (img_url_data r)
                         (case a of Author_user uid \<Rightarrow> Some uid | _ \<Rightarrow> None)
                         (body_data r) (db s) of
                    Inl e \<Rightarrow> (Fault e, s)
                  | Inr d' \<Rightarrow> (Redirect Ep_show_post (Some (post_id post)), s\<lparr>db := d'\<rparr>)))
          else (Render Make_post_html, s))"

text \<open>
  \<^verbatim>\<open>delete_post\<close>. \<^verbatim>\<open>db.session.delete(None)\<close> raises
  \<^verbatim>\<open>UnmappedInstanceError\<close>.
\<close>

definition delete_post :: "nat \<Rightarrow> handler" where
  "delete_post pid w r s =
     (case blog_post_query_get pid (db s) of
        Inl e \<Rightarrow> (Fault e, s)
      | Inr None \<Rightarrow> (Fault UnmappedInstanceError, s)
      | Inr (Some post_to_delete) \<Rightarrow>
          (Redirect Ep_get_all_posts None, s\<lparr>db := delete_blog_post post_to_delete (db s)\<rparr>))"

subsection \<open>Decorators and dispatch\<close>

text \<open>
  A view function takes the converted arguments of its rule: none, or \<^verbatim>\<open>post_id\<close>.
\<close>

datatype view = View0 handler | View1 "nat \<Rightarrow> handler"

text \<open>
  \<^verbatim>\<open>admin_only\<close>: the function it returns reads \<^verbatim>\<open>current_user.id\<close>, an
  attribute that Flask-Login's anonymous user does not have, compares it with 1 and
  either aborts with 403 or calls the function it was given with the same arguments.
\<close>

definition decorated_function :: "handler \<Rightarrow> handler" where
  "decorated_function arg_function w r s =
     (case current_user s of
        None \<Rightarrow> (Fault AttributeError, s)
      | Some u \<Rightarrow> if user_id u \<noteq> 1 then (Abort 403, s) else arg_function w r s)"

fun admin_only :: "view \<Rightarrow> view" where
  "admin_only (View0 arg_function) = View0 (decorated_function arg_function)"
| "admin_only (View1 arg_function) = View1 (\<lambda>pid. decorated_function (arg_function pid))"

text \<open>
  The Flask application object: the rules with their endpoint and methods, and the view
  function registered for each endpoint. \<^verbatim>\<open>app.route(rule, methods=ms)\<close> is a
  decorator that registers the function it is given under the function's name and
  returns that same function.
\<close>

record flask_app =
  url_map :: "url_rule \<Rightarrow> (endpoint \<times> http_method list) option"
  view_functions :: "endpoint \<Rightarrow> view option"

definition route ::
  "url_rule \<Rightarrow> http_method list \<Rightarrow> endpoint \<Rightarrow> view \<Rightarrow> flask_app \<Rightarrow> view \<times> flask_app" where
  "route rule ms name f app =
     (f, app\<lparr>url_map := (url_map app)(rule \<mapsto> (name, ms)),
            view_functions := (view_functions app)(name \<mapsto> f)\<rparr>)"

text \<open>
  The decorated definitions of \<^verbatim>\<open>main.py\<close>, in the order of the file. Decorators
  apply from the one nearest to the \<^verbatim>\<open>def\<close> upwards: for the three post-changing
  routes \<^verbatim>\<open>app.route\<close> is the nearest, so it registers the function as written, and
  \<^verbatim>\<open>admin_only\<close> then wraps what \<^verbatim>\<open>app.route\<close> returned; the wrapper is bound to
  the module's name for the function. The first component of each pair is that binding.
\<close>

definition main_module :: flask_app where
  "main_module =
     (let app = \<lparr>url_map = Map.empty, view_functions = Map.empty\<rparr>;
          (get_all_posts_name, app) = route Rule_index [GET] Ep_get_all_posts (View0 get_all_posts) app;
          (register_name, app) = route Rule_register [GET, POST] Ep_register (View0 register) app;
          (login_name, app) = route Rule_login [GET, POST] Ep_login (View0 login) app;
          (logout_name, app) = route Rule_logout [GET] Ep_logout (View0 logout) app;
          (show_post_name, app) = route Rule_post [GET, POST] Ep_show_post (View1 show_post) app;
          (about_name, app) = route Rule_about [GET] Ep_about (View0 about) app;
          (contact_name, app) = route Rule_contact [GET] Ep_contact (View0 contact) app;
          (add_new_post_name, app) =
             apfst admin_only
               (route Rule_new_post [GET, POST] Ep_add_new_post (View0 add_new_post) app);
          (edit_post_name, app) =
             apfst admin_only
               (route Rule_edit_post [GET, POST] Ep_edit_post (View1 edit_post) app);
          (delete_post_name, app) =
             apfst admin_only (route Rule_delete [GET] Ep_delete_post (View1 delete_post) app)
      in app)"

text \<open>
  Flask's dispatch: the rule gives the endpoint, a method the rule does not list is
  answered with 405, and the view function registered for the endpoint is called with
  the converted arguments.
\<close>

definition call_view :: "view \<Rightarrow> nat option \<Rightarrow> handler" where
  "call_view v args w r s =
     (case v of
        View0 f \<Rightarrow> (case args of None \<Rightarrow> f w r s | Some pid \<Rightarrow> (Fault TypeError, s))
      | View1 f \<Rightarrow> (case args of None \<Rightarrow> (Fault TypeError, s) | Some pid \<Rightarrow> f pid w r s))"

definition dispatch_request :: "flask_app \<Rightarrow> handler" where
  "dispatch_request app w r s =
     (case url_map app (req_rule r) of
        None \<Rightarrow> (Abort 404, s)
      | Some (ep, ms) \<Rightarrow>
          if req_method r \<notin> set ms then (Abort 405, s)
          else
            (case view_functions app ep of
               None \<Rightarrow> (Fault KeyError, s)
             | Some v \<Rightarrow> call_view v (req_post_id r) w r s))"

definition handle_request :: handler where
  "handle_request = dispatch_request main_module"

subsection \<open>The date of a post in words\<close>

text \<open>
  The specification's reading of the date format, to compare \<^verbatim>\<open>strftime\<close> with: the
  month's English name in full, a space, the day of the month as two decimal digits, a
  comma, a space, and the year as four decimal digits.
\<close>

definition spec_digit :: "nat \<Rightarrow> char" where
  "spec_digit k =
     (if k = 0 then CHR ''0'' else if k = 1 then CHR ''1'' else if k = 2 then CHR ''2''
      else if k = 3 then CHR ''3'' else if k = 4 then CHR ''4'' else if k = 5 then CHR ''5''
      else if k = 6 then CHR ''6'' else if k = 7 then CHR ''7'' else if k = 8 then CHR ''8''
      else CHR ''9'')"

definition spec_month :: "month \<Rightarrow> string" where
  "spec_month m =
     (case m of January \<Rightarrow> ''January'' | February \<Rightarrow> ''February'' | March \<Rightarrow> ''March''
      | April \<Rightarrow> ''April'' | May \<Rightarrow> ''May'' | June \<Rightarrow> ''June'' | July \<Rightarrow> ''July''
      | August \<Rightarrow> ''August'' | September \<Rightarrow> ''September'' | October \<Rightarrow> ''October''
      | November \<Rightarrow> ''November'' | December \<Rightarrow> ''December'')"

definition spec_date_string :: "calendar_date \<Rightarrow> string" where
  "spec_date_string d =
     spec_month (date_month d) @ [CHR '' '']
       @ [spec_digit (date_day d div 10), spec_digit (date_day d mod 10)]
       @ [CHR '','', CHR '' '']
       @ [spec_digit (date_year d div 1000), spec_digit (date_year d div 100 mod 10),
          spec_digit (date_year d div 10 mod 10), spec_digit (date_year d mod 10)]"

text \<open>
  A date of the calendar as the system clock gives it: a day of the month and a year of
  four digits.
\<close>

definition clock_date :: "calendar_date \<Rightarrow> bool" where
  "clock_date d =
     (1 \<le> date_day d \<and> date_day d \<le> 31 \<and> 1000 \<le> date_year d \<and> date_year d \<le> 9999)"

subsection \<open>Sample data\<close>

text \<open>
  Two stored hashes as Werkzeug writes them (method, rounds, salt, PBKDF2-HMAC-SHA256
  digest): the first is the hash of the password \<^verbatim>\<open>root\<close>, the second that of
  \<^verbatim>\<open>book\<close>.
\<close>

definition root_hash :: string where
  "root_hash =
     ''pbkdf2:sha256:260000$kV3nQ8zT$bdbc8c8dff9ab3e25734e2f8f20ddacc70d970476f9f563eae575fe57427b158''"

definition book_hash :: string where
  "book_hash =
     ''pbkdf2:sha256:260000$Xw7LpR2d$a846b5cfa0f24fcb69a6968b68899bdd10204dff5582210945188aa8d25f2e6d''"

text \<open>
  A world for the examples. Its password functions are Werkzeug's on the two passwords
  and the two hashes above: each hash verifies its own password, and neither verifies
  any other password that an example submits. No example hashes another password or
  checks another hash.
\<close>

definition sample_world :: world where
  "sample_world =
     \<lparr>today = \<lparr>date_year = 2026, date_month = November, date_day = 3\<rparr>,
      generate_password_hash = (\<lambda>pw. if pw = ''root'' then root_hash else book_hash),
      check_password_hash =
        (\<lambda>pwhash pw. (pwhash = root_hash \<and> pw = ''root'') \<or> (pwhash = book_hash \<and> pw = ''book''))\<rparr>"

definition admin_row :: user where
  "admin_row = \<lparr>user_id = 1, user_email = ''admin@blog.org'',
                user_password = root_hash, user_username = ''admin''\<rparr>"

definition reader_row :: user where
  "reader_row = \<lparr>user_id = 2, user_email = ''reader@blog.org'',
                 user_password = book_hash, user_username = ''reader''\<rparr>"

definition first_post :: blog_post where
  "first_post = \<lparr>post_id = 1, post_author_id = Some 1, post_title = ''Cacti'',
                 post_subtitle = ''On succulents'', post_date = ''October 20, 2026'',
                 post_body = ''They need little water.'', post_img_url = ''cactus.png''\<rparr>"

definition sample_db :: database where
  "sample_db = \<lparr>users = [admin_row, reader_row], blog_posts = [first_post], comments = []\<rparr>"

definition empty_db :: database where
  "empty_db = \<lparr>users = [], blog_posts = [], comments = []\<rparr>"

text \<open>A plain \<^verbatim>\<open>GET\<close> of a rule, and a valid submission of a rule's form.\<close>

definition get_request :: "url_rule \<Rightarrow> nat option \<Rightarrow> request" where
  "get_request rule pid =
     \<lparr>req_rule = rule, req_post_id = pid, req_method = GET, form_validates = False,
      email_data = [], username_data = [], password_data = [], comment_text_data = [],
      title_data = [], subtitle_data = [], body_data = [], img_url_data = [],
      author_data = Author_other\<rparr>"

definition post_request :: "url_rule \<Rightarrow> nat option \<Rightarrow> request" where
  "post_request rule pid = (get_request rule pid)\<lparr>req_method := POST, form_validates := True\<rparr>"

definition session_of :: "nat option \<Rightarrow> database \<Rightarrow> state" where
  "session_of uid d = \<lparr>db = d, session_user_id = uid, flashes = []\<rparr>"

section \<open>Properties\<close>

subsection \<open>What the application registers\<close>

lemma main_module_url_map:
  "url_map main_module Rule_index = Some (Ep_get_all_posts, [GET])"
  "url_map main_module Rule_register = Some (Ep_register, [GET, POST])"
  "url_map main_module Rule_login = Some (Ep_login, [GET, POST])"
  "url_map main_module Rule_logout = Some (Ep_logout, [GET])"
  "url_map main_module Rule_post = Some (Ep_show_post, [GET, POST])"
  "url_map main_module Rule_about = Some (Ep_about, [GET])"
  "url_map main_module Rule_contact = Some (Ep_contact, [GET])"
  "url_map main_module Rule_new_post = Some (Ep_add_new_post, [GET, POST])"
  "url_map main_module Rule_edit_post = Some (Ep_edit_post, [GET, POST])"
  "url_map main_module Rule_delete = Some (Ep_delete_post, [GET])"
  by (simp_all add: main_module_def route_def)

lemma main_module_view_functions:
  "view_functions main_module Ep_get_all_posts = Some (View0 get_all_posts)"
  "view_functions main_module Ep_register = Some (View0 register)"
  "view_functions main_module Ep_login = Some (View0 login)"
  "view_functions main_module Ep_logout = Some (View0 logout)"
  "view_functions main_module Ep_show_post = Some (View1 show_post)"
  "view_functions main_module Ep_about = Some (View0 about)"
  "view_functions main_module Ep_contact = Some (View0 contact)"
  "view_functions main_module Ep_add_new_post = Some (View0 add_new_post)"
  "view_functions main_module Ep_edit_post = Some (View1 edit_post)"
  "view_functions main_module Ep_delete_post = Some (View1 delete_post)"
  by (simp_all add: main_module_def route_def)

text \<open>A request for one of the post-changing rules reaches the function as written.\<close>

lemma handle_request_new_post:
  "req_rule r = Rule_new_post \<Longrightarrow> req_post_id r = None \<Longrightarrow>
   handle_request w r s = add_new_post w r s"
  by (cases "req_method r")
     (simp_all add: handle_request_def dispatch_request_def main_module_url_map
        main_module_view_functions call_view_def)

lemma handle_request_edit_post:
  "req_rule r = Rule_edit_post \<Longrightarrow> req_post_id r = Some pid \<Longrightarrow>
   handle_request w r s = edit_post pid w r s"
  by (cases "req_method r")
     (simp_all add: handle_request_def dispatch_request_def main_module_url_map
        main_module_view_functions call_view_def)

lemma handle_request_delete:
  "req_rule r = Rule_delete \<Longrightarrow> req_post_id r = Some pid \<Longrightarrow> req_method r = GET \<Longrightarrow>
   handle_request w r s = delete_post pid w r s"
  by (simp add: handle_request_def dispatch_request_def main_module_url_map
        main_module_view_functions call_view_def)

text \<open>The wrapper itself refuses a signed-in user other than user 1 and changes nothing.\<close>

lemma decorated_function_forbidden:
  "current_user s = Some u \<Longrightarrow> user_id u \<noteq> 1 \<Longrightarrow> decorated_function f w r s = (Abort 403, s)"
  by (simp add: decorated_function_def)

lemma handle_request_show_post:
  "req_rule r = Rule_post \<Longrightarrow> req_post_id r = Some pid \<Longrightarrow>
   handle_request w r s = show_post pid w r s"
  by (cases "req_method r")
     (simp_all add: handle_request_def dispatch_request_def main_module_url_map
        main_module_view_functions call_view_def)

lemma call_view_cases:
  "call_view (View0 f) None w r s = f w r s"
  "call_view (View0 f) (Some pid) w r s = (Fault TypeError, s)"
  "call_view (View1 g) None w r s = (Fault TypeError, s)"
  "call_view (View1 g) (Some pid) w r s = g pid w r s"
  by (simp_all add: call_view_def)

subsection \<open>Lookups\<close>

lemma find_Some_row: "find P xs = Some x \<Longrightarrow> x \<in> set xs \<and> P x"
  by (induction xs) (auto split: if_splits)

lemma find_email_Some_iff:
  "(\<exists>u. user_query_filter_by_email e d = Some u) \<longleftrightarrow> (\<exists>u\<in>set (users d). user_email u = e)"
  by (cases "user_query_filter_by_email e d")
     (auto simp: user_query_filter_by_email_def find_None_iff dest: find_Some_row)

lemma current_user_row:
  "current_user s = Some u \<Longrightarrow> u \<in> set (users (db s)) \<and> session_user_id s = Some (user_id u)"
  by (auto simp: current_user_def load_user_def user_query_get_def
      split: option.splits dest: find_Some_row)

lemma blog_post_query_get_row:
  "blog_post_query_get pid d = Inr (Some p) \<Longrightarrow>
   p \<in> set (blog_posts d) \<and> post_id p = pid \<and> pid \<le> max_key"
  by (auto simp: blog_post_query_get_def split: if_splits dest: find_Some_row)

lemma blog_post_query_get_absent:
  "pid \<le> max_key \<Longrightarrow> \<forall>p\<in>set (blog_posts d). post_id p \<noteq> pid \<Longrightarrow>
   blog_post_query_get pid d = Inr None"
  by (simp add: blog_post_query_get_def find_None_iff)

lemma blog_post_query_get_present:
  "pid \<le> max_key \<Longrightarrow> \<exists>p\<in>set (blog_posts d). post_id p = pid \<Longrightarrow>
   \<exists>p. blog_post_query_get pid d = Inr (Some p) \<and> p \<in> set (blog_posts d) \<and> post_id p = pid"
  by (cases "find (\<lambda>p. post_id p = pid) (blog_posts d)")
     (auto simp: blog_post_query_get_def find_None_iff dest: find_Some_row)

lemma blog_post_query_get_overflow:
  "max_key < pid \<Longrightarrow> blog_post_query_get pid d = Inl OverflowError"
  by (simp add: blog_post_query_get_def)

lemma find_unique_email:
  "distinct (map user_email us) \<Longrightarrow> u \<in> set us \<Longrightarrow>
   find (\<lambda>v. user_email v = user_email u) us = Some u"
  by (induction us) (auto simp: image_iff)

lemma filter_by_email_row:
  assumes "distinct (map user_email (users d))" and "u \<in> set (users d)"
    and "user_email u = e"
  shows "user_query_filter_by_email e d = Some u"
  using find_unique_email [OF assms(1,2)] assms(3)
  by (simp add: user_query_filter_by_email_def)

lemma filter_by_email_none:
  "\<forall>u\<in>set (users d). user_email u \<noteq> e \<Longrightarrow> user_query_filter_by_email e d = None"
  by (simp add: user_query_filter_by_email_def find_None_iff)

lemma filter_by_email_found:
  "user_query_filter_by_email e d = Some u \<Longrightarrow> u \<in> set (users d) \<and> user_email u = e"
  by (auto simp: user_query_filter_by_email_def dest: find_Some_row)

subsection \<open>The date format\<close>

lemma month_name_in_words: "month_name m = spec_month m"
  by (cases m) (simp_all add: spec_month_def)

lemma digit_char_in_words: "k < 10 \<Longrightarrow> digit_char k = spec_digit k"
proof -
  assume "k < 10"
  then consider "k = 0" | "k = 1" | "k = 2" | "k = 3" | "k = 4" | "k = 5" | "k = 6" | "k = 7"
    | "k = 8" | "k = 9"
    by atomize_elim arith
  then show ?thesis
    by cases (simp_all add: digit_char_def spec_digit_def)
qed

lemma string_of_nat_one_digit: "n < 10 \<Longrightarrow> string_of_nat n = [spec_digit n]"
  by (simp add: digit_char_in_words)

lemma string_of_nat_two_digits:
  assumes "10 \<le> n" and "n < 100"
  shows "string_of_nat n = [spec_digit (n div 10), spec_digit (n mod 10)]"
proof -
  have "string_of_nat n = string_of_nat (n div 10) @ [digit_char (n mod 10)]"
    using assms(1) by (subst string_of_nat.simps) simp
  moreover have "n div 10 < 10"
    using assms(2) by simp
  ultimately show ?thesis
    by (simp add: string_of_nat_one_digit digit_char_in_words del: string_of_nat.simps)
qed

lemma string_of_nat_three_digits:
  assumes "100 \<le> n" and "n < 1000"
  shows "string_of_nat n = [spec_digit (n div 100), spec_digit (n div 10 mod 10), spec_digit (n mod 10)]"
proof -
  have "string_of_nat n = string_of_nat (n div 10) @ [digit_char (n mod 10)]"
    using assms(1) by (subst string_of_nat.simps) simp
  moreover have "10 \<le> n div 10" "n div 10 < 100"
    using assms by simp_all
  moreover have "n div 10 div 10 = n div 100"
    by (simp add: div_mult2_eq [symmetric])
  ultimately show ?thesis
    by (simp add: string_of_nat_two_digits digit_char_in_words del: string_of_nat.simps)
qed

lemma string_of_nat_four_digits:
  assumes "1000 \<le> n" and "n \<le> 9999"
  shows "string_of_nat n
           = [spec_digit (n div 1000), spec_digit (n div 100 mod 10),
              spec_digit (n div 10 mod 10), spec_digit (n mod 10)]"
proof -
  have "string_of_nat n = string_of_nat (n div 10) @ [digit_char (n mod 10)]"
    using assms(1) by (subst string_of_nat.simps) simp
  moreover have "100 \<le> n div 10" "n div 10 < 1000"
    using assms by simp_all
  moreover have "n div 10 div 100 = n div 1000" "n div 10 div 10 = n div 100"
    by (simp_all add: div_mult2_eq [symmetric])
  ultimately show ?thesis
    by (simp add: string_of_nat_three_digits digit_char_in_words del: string_of_nat.simps)
qed

lemma zero_pad2_day:
  assumes "1 \<le> n" and "n \<le> 31"
  shows "zero_pad2 (string_of_nat n) = [spec_digit (n div 10), spec_digit (n mod 10)]"
proof (cases "n < 10")
  case True
  then show ?thesis
    by (simp add: zero_pad2_def string_of_nat_one_digit spec_digit_def del: string_of_nat.simps)
next
  case False
  with assms have "10 \<le> n" "n < 100"
    by simp_all
  then show ?thesis
    by (simp add: zero_pad2_def string_of_nat_two_digits del: string_of_nat.simps)
qed

lemma strftime_in_words:
  assumes "clock_date d"
  shows "strftime ''%B %d, %Y'' d = spec_date_string d"
  using assms
  by (simp add: directive_def spec_date_string_def clock_date_def month_name_in_words
      zero_pad2_day string_of_nat_four_digits del: string_of_nat.simps)

subsection \<open>Facts about the view functions\<close>

lemma add_new_post_succeeds:
  assumes "validate_on_submit r" and "current_user s = Some u"
    and "\<not> list_ex (\<lambda>p. post_title p = title_data r) (blog_posts (db s))"
  shows "\<exists>s'. add_new_post w r s = (Redirect Ep_get_all_posts None, s')"
  using assms by (simp add: add_new_post_def add_blog_post_def Let_def)

lemma edit_post_succeeds:
  assumes "blog_post_query_get pid (db s) = Inr (Some p)" and "validate_on_submit r"
    and "author_data r \<noteq> Author_other"
    and "\<not> list_ex (\<lambda>q. post_id q \<noteq> pid \<and> post_title q = title_data r) (blog_posts (db s))"
  shows "\<exists>s'. edit_post pid w r s = (Redirect Ep_show_post (Some pid), s')"
  using assms blog_post_query_get_row [OF assms(1)]
  by (cases "author_data r") (simp_all add: edit_post_def update_blog_post_def)

lemma deleted_post_is_absent:
  "\<forall>q\<in>set (blog_posts (delete_blog_post p d)). post_id q \<noteq> post_id p"
  by (simp add: delete_blog_post_def)

lemma delete_blog_post_comment_ids:
  "map comment_id (comments (delete_blog_post p d)) = map comment_id (comments d)"
  by (induction "comments d") (simp_all add: delete_blog_post_def)

lemma register_keeps_comments: "comments (db (snd (register w r s))) = comments (db s)"
  by (simp add: register_def add_user_def flash_def login_user_def Let_def
      split: option.splits)

lemma login_keeps_comments: "comments (db (snd (login w r s))) = comments (db s)"
  by (simp add: login_def flash_def login_user_def split: option.splits)

lemma add_new_post_keeps_comments: "comments (db (snd (add_new_post w r s))) = comments (db s)"
  by (simp add: add_new_post_def add_blog_post_def Let_def split: option.splits)

lemma edit_post_keeps_comments: "comments (db (snd (edit_post pid w r s))) = comments (db s)"
  by (simp add: edit_post_def update_blog_post_def
      split: sum.splits option.splits author_value.splits)

lemma delete_post_keeps_comment_ids:
  "map comment_id (comments (db (snd (delete_post pid w r s)))) = map comment_id (comments (db s))"
  by (simp add: delete_post_def delete_blog_post_comment_ids split: sum.splits option.splits)

lemma other_routes_create_no_comment:
  assumes "req_rule r \<noteq> Rule_post"
  shows "map comment_id (comments (db (snd (handle_request w r s))))
           = map comment_id (comments (db s))"
proof -
  have c: "map comment_id (comments (db (snd (call_view v (req_post_id r) w r s))))
             = map comment_id (comments (db s))"
    if "v \<in> {View0 get_all_posts, View0 register, View0 login, View0 logout, View0 about,
              View0 contact, View0 add_new_post, View1 edit_post, View1 delete_post}" for v
    using that
    by (cases "req_post_id r")
       (auto simp: call_view_cases get_all_posts_def logout_def logout_user_def about_def
          contact_def register_keeps_comments login_keeps_comments
          add_new_post_keeps_comments edit_post_keeps_comments delete_post_keeps_comment_ids)
  show ?thesis
    using assms
    by (cases "req_rule r"; cases "req_method r")
       (simp_all add: handle_request_def dispatch_request_def main_module_url_map
          main_module_view_functions c)
qed

text \<open>
  The unique constraint on the email column holds in the empty store and after every
  request: only a registration adds a user row, and only with an email that no row has.
\<close>

lemma register_keeps_emails_distinct:
  assumes "distinct (map user_email (users (db s)))"
  shows "distinct (map user_email (users (db (snd (register w r s)))))"
proof (cases "validate_on_submit r")
  case False
  with assms show ?thesis
    by (simp add: register_def)
next
  case True
  show ?thesis
  proof (cases "user_query_filter_by_email (email_data r) (db s)")
    case (Some u)
    with True assms show ?thesis
      by (simp add: register_def flash_def)
  next
    case None
    then have "\<forall>u\<in>set (users (db s)). user_email u \<noteq> email_data r"
      by (auto simp: user_query_filter_by_email_def find_None_iff)
    with True None assms show ?thesis
      by (auto simp: register_def add_user_def Let_def login_user_def list_ex_iff)
  qed
qed

lemma login_keeps_users: "users (db (snd (login w r s))) = users (db s)"
  by (simp add: login_def flash_def login_user_def split: option.splits)

lemma show_post_keeps_users: "users (db (snd (show_post pid w r s))) = users (db s)"
  by (simp add: show_post_def flash_def add_comment_def split: sum.splits option.splits)

lemma add_new_post_keeps_users: "users (db (snd (add_new_post w r s))) = users (db s)"
  by (simp add: add_new_post_def add_blog_post_def Let_def split: option.splits)

lemma edit_post_keeps_users: "users (db (snd (edit_post pid w r s))) = users (db s)"
  by (simp add: edit_post_def update_blog_post_def
      split: sum.splits option.splits author_value.splits)

lemma delete_post_keeps_users: "users (db (snd (delete_post pid w r s))) = users (db s)"
  by (simp add: delete_post_def delete_blog_post_def split: sum.splits option.splits)

lemma handle_request_keeps_emails_distinct:
  assumes "distinct (map user_email (users (db s)))"
  shows "distinct (map user_email (users (db (snd (handle_request w r s)))))"
proof -
  have c: "distinct (map user_email (users (db (snd (call_view v (req_post_id r) w r s)))))"
    if "v \<in> {View0 get_all_posts, View0 register, View0 login, View0 logout, View0 about,
              View0 contact, View0 add_new_post, View1 edit_post, View1 delete_post,
              View1 show_post}" for v
    using that assms register_keeps_emails_distinct [OF assms, of w r]
    by (cases "req_post_id r")
       (auto simp: call_view_cases get_all_posts_def logout_def logout_user_def about_def
          contact_def login_keeps_users show_post_keeps_users add_new_post_keeps_users
          edit_post_keeps_users delete_post_keeps_users)
  show ?thesis
    using assms
    by (cases "req_rule r"; cases "req_method r")
       (simp_all add: handle_request_def dispatch_request_def main_module_url_map
          main_module_view_functions c)
qed

subsection \<open>The claims\<close>

text \<open>
  C1. The claim: a request for \<^verbatim>\<open>add_new_post\<close>, \<^verbatim>\<open>edit_post\<close> or
  \<^verbatim>\<open>delete_post\<close> by an identity other than user 1 is answered with 403 and leaves the
  store as it was. The program at such a request: the reader (user 2) is signed in and
  requests \<^verbatim>\<open>/delete/1\<close>; the only post is deleted and the answer is the redirect to
  the listing.
\<close>

theorem delete_post_by_reader_deletes:
  "handle_request sample_world (get_request Rule_delete (Some 1)) (session_of (Some 2) sample_db)
     = (Redirect Ep_get_all_posts None,
        session_of (Some 2) (sample_db\<lparr>blog_posts := []\<rparr>))"
  by (simp add: handle_request_def dispatch_request_def main_module_url_map
        main_module_view_functions call_view_def get_request_def session_of_def
        delete_post_def blog_post_query_get_def max_key_def delete_blog_post_def sample_db_def
        first_post_def)

text \<open>
  C2. The claim: for a post id with no row, \<^verbatim>\<open>show_post\<close> answers NotFound, also
  after the post was deleted. The program: the reader views post 7, which no row has, and
  the answer is the post page rendered with no post; the admin deletes post 1, and a
  view of post 1 is then answered the same way.
\<close>

theorem show_post_absent_counterexample:
  "list_all (\<lambda>p. post_id p \<noteq> 7) (blog_posts sample_db)
   \<and> handle_request sample_world (get_request Rule_post (Some 7)) (session_of (Some 2) sample_db)
       = (Render (Post_html None), session_of (Some 2) sample_db)
   \<and> fst (handle_request sample_world (get_request Rule_post (Some 7))
             (session_of (Some 2) sample_db)) \<noteq> Abort 404
   \<and> fst (show_post 1 sample_world (get_request Rule_post (Some 1))
             (snd (delete_post 1 sample_world (get_request Rule_delete (Some 1))
                     (session_of (Some 1) sample_db))))
       = Render (Post_html None)"
  by (simp add: handle_request_show_post get_request_def show_post_def delete_post_def
      validate_on_submit_def blog_post_query_get_def max_key_def delete_blog_post_def
      session_of_def sample_db_def first_post_def)

text \<open>
  C2, as the program has it. For a post id that no row has, \<^verbatim>\<open>show_post\<close> never
  answers with 404. Within the keys of the store: a request that is no valid form
  submission is answered with the post page rendered with no post and changes nothing; a
  valid submission by the anonymous user is answered with the redirect to login; a valid
  submission by a signed-in user stores a comment with no parent post and is answered
  with the post page rendered with no post. Beyond the keys of the store the lookup
  raises \<^verbatim>\<open>OverflowError\<close>. After \<^verbatim>\<open>delete_post\<close> has removed a post, no row has
  its id, and a plain view of that id is answered with the post page rendered with no
  post.
\<close>

theorem show_post_absent_renders_no_post:
  "((\<forall>p\<in>set (blog_posts (db s)). post_id p \<noteq> pid) \<longrightarrow>
      fst (show_post pid w r s) \<noteq> Abort 404
      \<and> (pid \<le> max_key \<and> \<not> validate_on_submit r \<longrightarrow>
            show_post pid w r s = (Render (Post_html None), s))
      \<and> (pid \<le> max_key \<and> validate_on_submit r \<and> current_user s = None \<longrightarrow>
            show_post pid w r s
              = (Redirect Ep_login None,
                 flash ''You need to log in before posting a comment'' s))
      \<and> (pid \<le> max_key \<and> validate_on_submit r \<and> current_user s = Some u \<longrightarrow>
            show_post pid w r s
              = (Render (Post_html None),
                 flash ''Comment saved''
                   (s\<lparr>db := add_comment (Some (user_id u)) None (comment_text_data r) (db s)\<rparr>)))
      \<and> (max_key < pid \<longrightarrow> show_post pid w r s = (Fault OverflowError, s)))
   \<and> (delete_post pid w r' s = (Redirect ep a, s') \<longrightarrow>
        (\<exists>p\<in>set (blog_posts (db s)). post_id p = pid)
        \<and> (\<forall>p\<in>set (blog_posts (db s')). post_id p \<noteq> pid)
        \<and> (\<not> validate_on_submit r \<longrightarrow> show_post pid w r s' = (Render (Post_html None), s')))"
proof -
  have absent: "fst (show_post pid w r s) \<noteq> Abort 404
      \<and> (pid \<le> max_key \<and> \<not> validate_on_submit r \<longrightarrow>
            show_post pid w r s = (Render (Post_html None), s))
      \<and> (pid \<le> max_key \<and> validate_on_submit r \<and> current_user s = None \<longrightarrow>
            show_post pid w r s
              = (Redirect Ep_login None,
                 flash ''You need to log in before posting a comment'' s))
      \<and> (pid \<le> max_key \<and> validate_on_submit r \<and> current_user s = Some u \<longrightarrow>
            show_post pid w r s
              = (Render (Post_html None),
                 flash ''Comment saved''
                   (s\<lparr>db := add_comment (Some (user_id u)) None (comment_text_data r) (db s)\<rparr>)))
      \<and> (max_key < pid \<longrightarrow> show_post pid w r s = (Fault OverflowError, s))"
    if no: "\<forall>p\<in>set (blog_posts (db s)). post_id p \<noteq> pid"
  proof (cases "max_key < pid")
    case True
    then show ?thesis
      by (simp add: show_post_def blog_post_query_get_overflow)
  next
    case False
    then have "blog_post_query_get pid (db s) = Inr None"
      using no by (simp add: blog_post_query_get_absent)
    with False show ?thesis
      by (cases "current_user s") (simp_all add: show_post_def)
  qed
  have deleted: "(\<exists>p\<in>set (blog_posts (db s)). post_id p = pid)
        \<and> (\<forall>p\<in>set (blog_posts (db s')). post_id p \<noteq> pid)
        \<and> (\<not> validate_on_submit r \<longrightarrow> show_post pid w r s' = (Render (Post_html None), s'))"
    if run: "delete_post pid w r' s = (Redirect ep a, s')"
  proof -
    from run obtain p where p: "blog_post_query_get pid (db s) = Inr (Some p)"
      and s': "s' = s\<lparr>db := delete_blog_post p (db s)\<rparr>"
      by (auto simp: delete_post_def split: sum.splits option.splits)
    from p have k: "p \<in> set (blog_posts (db s))" "post_id p = pid" "pid \<le> max_key"
      using blog_post_query_get_row by blast+
    from s' k(2) have gone: "\<forall>q\<in>set (blog_posts (db s')). post_id q \<noteq> pid"
      using deleted_post_is_absent [of p "db s"] by simp
    then have "blog_post_query_get pid (db s') = Inr None"
      using k(3) by (simp add: blog_post_query_get_absent)
    then have "\<not> validate_on_submit r \<longrightarrow> show_post pid w r s' = (Render (Post_html None), s')"
      by (simp add: show_post_def)
    with k gone show ?thesis
      by blast
  qed
  from absent deleted show ?thesis
    by blast
qed

theorem show_post_absent_renders_no_post_witness:
  "show_post 7 sample_world (get_request Rule_post (Some 7)) (session_of None sample_db)
     = (Render (Post_html None), session_of None sample_db)
   \<and> show_post 1 sample_world (get_request Rule_post (Some 1))
       (session_of (Some 1) (sample_db\<lparr>blog_posts := []\<rparr>))
     = (Render (Post_html None), session_of (Some 1) (sample_db\<lparr>blog_posts := []\<rparr>))"
proof -
  let ?r7 = "get_request Rule_post (Some 7)"
  let ?r1 = "get_request Rule_post (Some 1)"
  let ?d = "get_request Rule_delete (Some 1)"
  let ?s = "session_of None sample_db"
  let ?t = "session_of (Some 1) sample_db"
  let ?t' = "session_of (Some 1) (sample_db\<lparr>blog_posts := []\<rparr>)"
  have nv: "\<not> validate_on_submit ?r7" "\<not> validate_on_submit ?r1"
    by (simp_all add: validate_on_submit_def get_request_def)
  have n7: "\<forall>p\<in>set (blog_posts (db ?s)). post_id p \<noteq> 7"
    by (simp add: session_of_def sample_db_def first_post_def)
  have k7: "(7::nat) \<le> max_key"
    by (simp add: max_key_def)
  have del: "delete_post 1 sample_world ?d ?t = (Redirect Ep_get_all_posts None, ?t')"
    by (simp add: delete_post_def blog_post_query_get_def max_key_def delete_blog_post_def
        session_of_def sample_db_def first_post_def)
  from show_post_absent_renders_no_post [of ?s 7 sample_world ?r7] n7 k7 nv(1)
  have "show_post 7 sample_world ?r7 ?s = (Render (Post_html None), ?s)"
    by blast
  moreover
  from show_post_absent_renders_no_post
         [of ?t 1 sample_world ?r1 _ ?d Ep_get_all_posts None ?t'] del nv(2)
  have "show_post 1 sample_world ?r1 ?t' = (Render (Post_html None), ?t')"
    by blast
  ultimately show ?thesis
    by simp
qed

text \<open>
  C3. The claim: the comment that \<^verbatim>\<open>show_post\<close> creates is linked to an existing post
  for every post id of the request. The program: the reader is signed in and submits a
  comment to post 7, which no row has; the comment is stored with no parent post.
\<close>

theorem comment_on_absent_post_counterexample:
  "list_all (\<lambda>p. post_id p \<noteq> 7) (blog_posts sample_db)
   \<and> comments (db (snd (handle_request sample_world
        ((post_request Rule_post (Some 7))\<lparr>comment_text_data := ''Nice''\<rparr>)
        (session_of (Some 2) sample_db))))
       = [\<lparr>comment_id = 1, comment_commenter_id = Some 2, comment_parent_post_id = None,
           comment_text = ''Nice''\<rparr>]"
  by (simp add: handle_request_show_post post_request_def get_request_def show_post_def
      validate_on_submit_def blog_post_query_get_def max_key_def current_user_def
      load_user_def user_query_get_def add_comment_def next_id_def flash_def session_of_def
      sample_db_def first_post_def admin_row_def reader_row_def)

text \<open>
  C3, as the program has it. A comment row is created only by a valid comment submission
  of a signed-in user to \<^verbatim>\<open>show_post\<close> with a post id within the keys of the store: no
  other route adds a comment row, and \<^verbatim>\<open>show_post\<close> adds none otherwise. The new row
  has exactly one commenter, the current user, who is a row of the user table and the
  identity of the session. When a row of the post table has the post id of the request,
  the new row's parent is that post; when none has, the new row has no parent.
\<close>

theorem comment_links:
  "(validate_on_submit r \<and> current_user s = Some u \<and> pid \<le> max_key \<longrightarrow>
      u \<in> set (users (db s)) \<and> session_user_id s = Some (user_id u)
      \<and> comments (db (snd (show_post pid w r s)))
          = comments (db s) @
            [\<lparr>comment_id = next_id (map comment_id (comments (db s))),
              comment_commenter_id = Some (user_id u),
              comment_parent_post_id =
                (if \<exists>p\<in>set (blog_posts (db s)). post_id p = pid then Some pid else None),
              comment_text = comment_text_data r\<rparr>]
      \<and> users (db (snd (show_post pid w r s))) = users (db s)
      \<and> blog_posts (db (snd (show_post pid w r s))) = blog_posts (db s))
   \<and> (\<not> validate_on_submit r \<or> current_user s = None \<or> max_key < pid \<longrightarrow>
        comments (db (snd (show_post pid w r s))) = comments (db s))
   \<and> (req_rule r \<noteq> Rule_post \<longrightarrow>
        map comment_id (comments (db (snd (handle_request w r s))))
          = map comment_id (comments (db s)))"
proof -
  have created: "u \<in> set (users (db s)) \<and> session_user_id s = Some (user_id u)
      \<and> comments (db (snd (show_post pid w r s)))
          = comments (db s) @
            [\<lparr>comment_id = next_id (map comment_id (comments (db s))),
              comment_commenter_id = Some (user_id u),
              comment_parent_post_id =
                (if \<exists>p\<in>set (blog_posts (db s)). post_id p = pid then Some pid else None),
              comment_text = comment_text_data r\<rparr>]
      \<and> users (db (snd (show_post pid w r s))) = users (db s)
      \<and> blog_posts (db (snd (show_post pid w r s))) = blog_posts (db s)"
    if v: "validate_on_submit r" and u: "current_user s = Some u" and k: "pid \<le> max_key"
  proof (cases "\<exists>p\<in>set (blog_posts (db s)). post_id p = pid")
    case True
    then obtain p where "blog_post_query_get pid (db s) = Inr (Some p)" and "post_id p = pid"
      using blog_post_query_get_present [OF k] by blast
    with True v u current_user_row [OF u] show ?thesis
      by (simp add: show_post_def add_comment_def flash_def)
  next
    case False
    then have "blog_post_query_get pid (db s) = Inr None"
      using blog_post_query_get_absent [OF k] by blast
    with False v u current_user_row [OF u] show ?thesis
      by (simp add: show_post_def add_comment_def flash_def)
  qed
  have none: "comments (db (snd (show_post pid w r s))) = comments (db s)"
    if "\<not> validate_on_submit r \<or> current_user s = None \<or> max_key < pid"
  proof (cases "blog_post_query_get pid (db s)")
    case (Inl e)
    then show ?thesis
      by (simp add: show_post_def)
  next
    case (Inr q)
    then have "\<not> max_key < pid"
      by (auto simp: blog_post_query_get_def split: if_splits)
    with that Inr show ?thesis
      by (cases "validate_on_submit r") (auto simp: show_post_def flash_def)
  qed
  from created none other_routes_create_no_comment [of r w s] show ?thesis
    by blast
qed

theorem comment_links_witness:
  "comments (db (snd (show_post 1 sample_world
        ((post_request Rule_post (Some 1))\<lparr>comment_text_data := ''Nice''\<rparr>)
        (session_of (Some 2) sample_db))))
     = [\<lparr>comment_id = 1, comment_commenter_id = Some 2, comment_parent_post_id = Some 1,
         comment_text = ''Nice''\<rparr>]
   \<and> reader_row \<in> set (users sample_db) \<and> first_post \<in> set (blog_posts sample_db)
   \<and> post_id first_post = 1"
proof -
  let ?r = "(post_request Rule_post (Some 1))\<lparr>comment_text_data := ''Nice''\<rparr>"
  let ?s = "session_of (Some 2) sample_db"
  have v: "validate_on_submit ?r"
    by (simp add: validate_on_submit_def post_request_def get_request_def)
  have u: "current_user ?s = Some reader_row"
    by (simp add: current_user_def load_user_def user_query_get_def session_of_def
        sample_db_def admin_row_def reader_row_def)
  have k: "(1::nat) \<le> max_key"
    by (simp add: max_key_def)
  have g: "\<exists>p\<in>set (blog_posts (db ?s)). post_id p = 1"
    by (simp add: session_of_def sample_db_def first_post_def)
  have n: "next_id (map comment_id (comments (db ?s))) = 1"
    by (simp add: next_id_def session_of_def sample_db_def)
  from comment_links [of ?r ?s reader_row 1 sample_world] v u k
  have "comments (db (snd (show_post 1 sample_world ?r ?s)))
          = comments (db ?s) @
            [\<lparr>comment_id = next_id (map comment_id (comments (db ?s))),
              comment_commenter_id = Some (user_id reader_row),
              comment_parent_post_id =
                (if \<exists>p\<in>set (blog_posts (db ?s)). post_id p = 1 then Some 1 else None),
              comment_text = comment_text_data ?r\<rparr>]"
    and "reader_row \<in> set (users (db ?s))"
    by blast+
  with g n show ?thesis
    by (simp add: session_of_def sample_db_def reader_row_def first_post_def post_request_def
        get_request_def)
qed

text \<open>
  C4. A valid registration whose email is already the email of a user row is answered
  with the redirect to the login page and the notice of the duplicate; it inserts no
  row, so the store is as it was, and it signs nobody in.
\<close>

theorem register_duplicate_email:
  assumes "validate_on_submit r"
    and "\<exists>u\<in>set (users (db s)). user_email u = email_data r"
  shows "register w r s
           = (Redirect Ep_login None,
              flash ''You've already signed up with that email, log in instead!'' s)
         \<and> db (snd (register w r s)) = db s
         \<and> session_user_id (snd (register w r s)) = session_user_id s"
proof -
  from assms(2) obtain u where "user_query_filter_by_email (email_data r) (db s) = Some u"
    using find_email_Some_iff by blast
  with assms(1) show ?thesis
    by (simp add: register_def flash_def)
qed

theorem register_duplicate_email_witness:
  "register sample_world ((post_request Rule_register None)\<lparr>email_data := ''reader@blog.org''\<rparr>)
      (session_of None sample_db)
     = (Redirect Ep_login None,
        \<lparr>db = sample_db, session_user_id = None,
         flashes = [''You've already signed up with that email, log in instead!'']\<rparr>)"
proof -
  let ?r = "(post_request Rule_register None)\<lparr>email_data := ''reader@blog.org''\<rparr>"
  let ?s = "session_of None sample_db"
  have v: "validate_on_submit ?r"
    by (simp add: validate_on_submit_def post_request_def get_request_def)
  have e: "\<exists>u\<in>set (users (db ?s)). user_email u = email_data ?r"
    by (simp add: session_of_def sample_db_def admin_row_def reader_row_def)
  show ?thesis
    using register_duplicate_email [OF v e, of sample_world]
    by (simp add: flash_def session_of_def)
qed

text \<open>
  C5. For a valid submission of the login form to a store whose emails are unique, the
  login signs a user in exactly when a row of the user table has the submitted email
  and the submitted password verifies against the hash of that row; the identity of the
  session is then the key of that row. With the email of a row and a password that does
  not verify against that row's hash, the answer is the redirect to login with the
  wrong-password notice; with an email of no row it is the redirect to login with the
  unknown-email notice. Whenever the login does not sign in, the identity of the session
  and the store are what they were.
\<close>

theorem login_establishes_session:
  assumes "validate_on_submit r" and "distinct (map user_email (users (db s)))"
  shows "(fst (login w r s) = Redirect Ep_get_all_posts None
            \<longleftrightarrow> (\<exists>u\<in>set (users (db s)). user_email u = email_data r
                   \<and> check_password_hash w (user_password u) (password_data r)))
         \<and> (\<forall>u\<in>set (users (db s)). user_email u = email_data r
                \<and> check_password_hash w (user_password u) (password_data r)
              \<longrightarrow> login w r s
                    = (Redirect Ep_get_all_posts None, s\<lparr>session_user_id := Some (user_id u)\<rparr>))
         \<and> (\<forall>u\<in>set (users (db s)). user_email u = email_data r
                \<and> \<not> check_password_hash w (user_password u) (password_data r)
              \<longrightarrow> login w r s
                    = (Redirect Ep_login None, flash ''Password incorrect, please try again'' s)
                  \<and> session_user_id (snd (login w r s)) = session_user_id s)
         \<and> ((\<forall>u\<in>set (users (db s)). user_email u \<noteq> email_data r)
              \<longrightarrow> login w r s = (Redirect Ep_login None, flash ''That email does not exist'' s))
         \<and> (fst (login w r s) \<noteq> Redirect Ep_get_all_posts None
              \<longrightarrow> session_user_id (snd (login w r s)) = session_user_id s
                  \<and> db (snd (login w r s)) = db s)
         \<and> (session_user_id s = None
              \<longrightarrow> (session_user_id (snd (login w r s)) \<noteq> None
                    \<longleftrightarrow> (\<exists>u\<in>set (users (db s)). user_email u = email_data r
                           \<and> check_password_hash w (user_password u) (password_data r))))"
proof -
  let ?E = "\<exists>u\<in>set (users (db s)). user_email u = email_data r
              \<and> check_password_hash w (user_password u) (password_data r)"
  show ?thesis
  proof (cases "user_query_filter_by_email (email_data r) (db s)")
    case None
    then have no: "\<forall>u\<in>set (users (db s)). user_email u \<noteq> email_data r"
      by (auto simp: user_query_filter_by_email_def find_None_iff)
    from None assms(1)
    have run: "login w r s = (Redirect Ep_login None, flash ''That email does not exist'' s)"
      by (simp add: login_def)
    from no have "\<not> ?E"
      by blast
    with no show ?thesis
      unfolding run by (simp add: flash_def)
  next
    case (Some u)
    then have u: "u \<in> set (users (db s))" "user_email u = email_data r"
      using filter_by_email_found by blast+
    have only: "v = u" if "v \<in> set (users (db s))" and "user_email v = email_data r" for v
      using filter_by_email_row [OF assms(2) that] Some by simp
    have some: "(\<forall>u\<in>set (users (db s)). user_email u \<noteq> email_data r) \<longleftrightarrow> False"
      using u by blast
    show ?thesis
    proof (cases "check_password_hash w (user_password u) (password_data r)")
      case True
      with Some assms(1)
      have run: "login w r s
                   = (Redirect Ep_get_all_posts None, s\<lparr>session_user_id := Some (user_id u)\<rparr>)"
        by (simp add: login_def login_user_def)
      from True u have "?E"
        by blast
      moreover have "\<forall>v\<in>set (users (db s)). user_email v = email_data r
            \<and> check_password_hash w (user_password v) (password_data r)
          \<longrightarrow> (Redirect Ep_get_all_posts None, s\<lparr>session_user_id := Some (user_id u)\<rparr>)
                = (Redirect Ep_get_all_posts None, s\<lparr>session_user_id := Some (user_id v)\<rparr>)"
        using only by blast
      moreover have "\<forall>v\<in>set (users (db s)). \<not> (user_email v = email_data r
            \<and> \<not> check_password_hash w (user_password v) (password_data r))"
        using only True by blast
      ultimately show ?thesis
        unfolding run some by simp
    next
      case False
      with Some assms(1)
      have run: "login w r s
                   = (Redirect Ep_login None, flash ''Password incorrect, please try again'' s)"
        by (simp add: login_def)
      from False only have "\<not> ?E"
        by blast
      moreover have "\<forall>v\<in>set (users (db s)). \<not> (user_email v = email_data r
            \<and> check_password_hash w (user_password v) (password_data r))"
        using only False by blast
      ultimately show ?thesis
        unfolding run some by (simp add: flash_def)
    qed
  qed
qed

theorem login_establishes_session_witness:
  "login sample_world
      ((post_request Rule_login None)\<lparr>email_data := ''reader@blog.org'', password_data := ''book''\<rparr>)
      (session_of None sample_db)
     = (Redirect Ep_get_all_posts None, session_of (Some 2) sample_db)
   \<and> login sample_world
      ((post_request Rule_login None)\<lparr>email_data := ''reader@blog.org'', password_data := ''root''\<rparr>)
      (session_of None sample_db)
     = (Redirect Ep_login None,
        \<lparr>db = sample_db, session_user_id = None,
         flashes = [''Password incorrect, please try again'']\<rparr>)"
proof -
  let ?ok = "(post_request Rule_login None)\<lparr>email_data := ''reader@blog.org'', password_data := ''book''\<rparr>"
  let ?bad = "(post_request Rule_login None)\<lparr>email_data := ''reader@blog.org'', password_data := ''root''\<rparr>"
  let ?s = "session_of None sample_db"
  have v: "validate_on_submit ?ok" "validate_on_submit ?bad"
    by (simp_all add: validate_on_submit_def post_request_def get_request_def)
  have i: "distinct (map user_email (users (db ?s)))"
    by (simp add: session_of_def sample_db_def admin_row_def reader_row_def)
  have m: "reader_row \<in> set (users (db ?s))"
    by (simp add: session_of_def sample_db_def)
  have e: "user_email reader_row = email_data ?ok" "user_email reader_row = email_data ?bad"
    by (simp_all add: reader_row_def)
  have c: "check_password_hash sample_world (user_password reader_row) (password_data ?ok)"
    "\<not> check_password_hash sample_world (user_password reader_row) (password_data ?bad)"
    by (simp_all add: sample_world_def reader_row_def root_hash_def book_hash_def)
  from login_establishes_session [OF v(1) i, of sample_world] m e(1) c(1)
  have "login sample_world ?ok ?s
          = (Redirect Ep_get_all_posts None, ?s\<lparr>session_user_id := Some (user_id reader_row)\<rparr>)"
    by blast
  moreover from login_establishes_session [OF v(2) i, of sample_world] m e(2) c(2)
  have "login sample_world ?bad ?s
          = (Redirect Ep_login None, flash ''Password incorrect, please try again'' ?s)"
    by blast
  ultimately show ?thesis
    by (simp add: session_of_def reader_row_def flash_def)
qed




text \<open>
  C7. A valid submission of the new-post form whose title is the title of a stored post
  fails: an exception leaves the view function (the unique constraint on the title at
  commit, or before that the anonymous user as author), no post row is added and the
  state is as it was.
\<close>

theorem add_new_post_title_taken:
  assumes "validate_on_submit r"
    and "\<exists>p\<in>set (blog_posts (db s)). post_title p = title_data r"
  shows "add_new_post w r s
           = (Fault (if current_user s = None then AttributeError else IntegrityError), s)
         \<and> blog_posts (db (snd (add_new_post w r s))) = blog_posts (db s)"
proof -
  from assms(2) have "list_ex (\<lambda>p. post_title p = title_data r) (blog_posts (db s))"
    by (simp add: list_ex_iff)
  with assms(1) show ?thesis
    by (cases "current_user s") (simp_all add: add_new_post_def add_blog_post_def)
qed

theorem add_new_post_title_taken_witness:
  "add_new_post sample_world ((post_request Rule_new_post None)\<lparr>title_data := ''Cacti''\<rparr>)
      (session_of (Some 1) sample_db)
     = (Fault IntegrityError, session_of (Some 1) sample_db)"
proof -
  let ?r = "(post_request Rule_new_post None)\<lparr>title_data := ''Cacti''\<rparr>"
  let ?s = "session_of (Some 1) sample_db"
  have v: "validate_on_submit ?r"
    by (simp add: validate_on_submit_def post_request_def get_request_def)
  have t: "\<exists>p\<in>set (blog_posts (db ?s)). post_title p = title_data ?r"
    by (simp add: session_of_def sample_db_def first_post_def)
  have u: "current_user ?s = Some admin_row"
    by (simp add: current_user_def load_user_def user_query_get_def session_of_def
        sample_db_def admin_row_def)
  show ?thesis
    using add_new_post_title_taken [OF v t, of sample_world] u by simp
qed

text \<open>
  C8. Whenever \<^verbatim>\<open>add_new_post\<close> succeeds on a date of the calendar, that is, answers
  with a redirect, the redirect is to the post listing, and the store has exactly one
  more post row, the last one: its date is the date of the request written as the
  month's name, the day in two digits, a comma and the year in four digits, its author
  is the current user, who is the identity of the session, and its other fields are the
  submitted ones. The other tables, the session and the flashed messages are as they
  were.
\<close>

theorem add_new_post_success:
  assumes "add_new_post w r s = (Redirect ep a, s')" and "clock_date (today w)"
  shows "ep = Ep_get_all_posts \<and> a = None
         \<and> (\<exists>u. current_user s = Some u \<and> session_user_id s = Some (user_id u)
              \<and> u \<in> set (users (db s))
              \<and> blog_posts (db s')
                  = blog_posts (db s) @
                    [\<lparr>post_id = next_id (map post_id (blog_posts (db s))),
                      post_author_id = Some (user_id u),
                      post_title = title_data r, post_subtitle = subtitle_data r,
                      post_date = spec_date_string (today w), post_body = body_data r,
                      post_img_url = img_url_data r\<rparr>])
         \<and> users (db s') = users (db s) \<and> comments (db s') = comments (db s)
         \<and> session_user_id s' = session_user_id s \<and> flashes s' = flashes s"
proof -
  from assms(1) obtain u where u: "current_user s = Some u"
    and v: "validate_on_submit r"
    by (auto simp: add_new_post_def split: if_splits option.splits)
  from assms(1) u v
  have run: "add_blog_post (Some (user_id u)) (title_data r) (subtitle_data r)
               (strftime ''%B %d, %Y'' (today w)) (body_data r) (img_url_data r) (db s)
             = Inr (db s')"
    and e: "ep = Ep_get_all_posts" "a = None"
    and f: "session_user_id s' = session_user_id s" "flashes s' = flashes s"
    by (auto simp: add_new_post_def split: sum.splits)
  have d: "strftime ''%B %d, %Y'' (today w) = spec_date_string (today w)"
    using assms(2) by (rule strftime_in_words)
  from run have "db s' = (db s)\<lparr>blog_posts := blog_posts (db s) @
      [\<lparr>post_id = next_id (map post_id (blog_posts (db s))),
        post_author_id = Some (user_id u),
        post_title = title_data r, post_subtitle = subtitle_data r,
        post_date = spec_date_string (today w), post_body = body_data r,
        post_img_url = img_url_data r\<rparr>]\<rparr>"
    unfolding d by (simp add: add_blog_post_def Let_def split: if_splits)
  with u e f current_user_row [OF u] show ?thesis
    by simp
qed

theorem add_new_post_success_witness:
  "blog_posts (db (snd (add_new_post sample_world
        ((post_request Rule_new_post None)\<lparr>title_data := ''Ferns'', body_data := ''Shade.''\<rparr>)
        (session_of (Some 1) sample_db))))
     = [first_post,
        \<lparr>post_id = 2, post_author_id = Some 1, post_title = ''Ferns'', post_subtitle = [],
         post_date = ''November 03, 2026'', post_body = ''Shade.'', post_img_url = []\<rparr>]
   \<and> blog_posts (db (snd (add_new_post
        (sample_world\<lparr>today := \<lparr>date_year = 1999, date_month = May, date_day = 17\<rparr>\<rparr>)
        ((post_request Rule_new_post None)\<lparr>title_data := ''Ferns'', body_data := ''Shade.''\<rparr>)
        (session_of (Some 1) sample_db))))
     = [first_post,
        \<lparr>post_id = 2, post_author_id = Some 1, post_title = ''Ferns'', post_subtitle = [],
         post_date = ''May 17, 1999'', post_body = ''Shade.'', post_img_url = []\<rparr>]"
proof -
  let ?r = "(post_request Rule_new_post None)\<lparr>title_data := ''Ferns'', body_data := ''Shade.''\<rparr>"
  let ?s = "session_of (Some 1) sample_db"
  let ?w = "sample_world\<lparr>today := \<lparr>date_year = 1999, date_month = May, date_day = 17\<rparr>\<rparr>"
  have v: "validate_on_submit ?r"
    by (simp add: validate_on_submit_def post_request_def get_request_def)
  have u: "current_user ?s = Some admin_row"
    by (simp add: current_user_def load_user_def user_query_get_def session_of_def
        sample_db_def admin_row_def)
  have t: "\<not> list_ex (\<lambda>p. post_title p = title_data ?r) (blog_posts (db ?s))"
    by (simp add: session_of_def sample_db_def first_post_def post_request_def get_request_def)
  have n: "next_id (map post_id (blog_posts (db ?s))) = 2"
    by (simp add: next_id_def session_of_def sample_db_def first_post_def)
  have c: "clock_date (today sample_world)" "clock_date (today ?w)"
    by (simp_all add: clock_date_def sample_world_def)
  have d: "spec_date_string (today sample_world) = ''November 03, 2026''"
    "spec_date_string (today ?w) = ''May 17, 1999''"
    by (simp_all add: spec_date_string_def spec_month_def spec_digit_def sample_world_def)
  obtain s1 where run1: "add_new_post sample_world ?r ?s = (Redirect Ep_get_all_posts None, s1)"
    using add_new_post_succeeds [OF v u t] by blast
  obtain s2 where run2: "add_new_post ?w ?r ?s = (Redirect Ep_get_all_posts None, s2)"
    using add_new_post_succeeds [OF v u t] by blast
  from add_new_post_success [OF run1 c(1)] u d(1) n
  have "blog_posts (db s1)
          = blog_posts (db ?s) @
            [\<lparr>post_id = 2, post_author_id = Some (user_id admin_row), post_title = title_data ?r,
              post_subtitle = subtitle_data ?r, post_date = ''November 03, 2026'',
              post_body = body_data ?r, post_img_url = img_url_data ?r\<rparr>]"
    by auto
  moreover from add_new_post_success [OF run2 c(2)] u d(2) n
  have "blog_posts (db s2)
          = blog_posts (db ?s) @
            [\<lparr>post_id = 2, post_author_id = Some (user_id admin_row), post_title = title_data ?r,
              post_subtitle = subtitle_data ?r, post_date = ''May 17, 1999'',
              post_body = body_data ?r, post_img_url = img_url_data ?r\<rparr>]"
    by auto
  ultimately show ?thesis
    using run1 run2
    by (simp add: session_of_def sample_db_def admin_row_def post_request_def get_request_def)
qed

text \<open>
  C9. Logout clears the identity of the session whatever the state was and redirects to
  the post listing; on a state with no session it changes nothing, and logging out twice
  gives the same state as logging out once.
\<close>

theorem logout_idempotent:
  "fst (logout w r s) = Redirect Ep_get_all_posts None
   \<and> session_user_id (snd (logout w r s)) = None
   \<and> db (snd (logout w r s)) = db s
   \<and> flashes (snd (logout w r s)) = flashes s
   \<and> (session_user_id s = None \<longrightarrow> snd (logout w r s) = s)
   \<and> logout w' r' (snd (logout w r s)) = logout w r s"
  by (simp add: logout_def logout_user_def)

theorem logout_idempotent_witness:
  "session_user_id (session_of None sample_db) = None
   \<and> snd (logout sample_world (get_request Rule_logout None) (session_of None sample_db))
       = session_of None sample_db
   \<and> fst (logout sample_world (get_request Rule_logout None) (session_of (Some 2) sample_db))
       = Redirect Ep_get_all_posts None
   \<and> session_user_id
        (snd (logout sample_world (get_request Rule_logout None) (session_of (Some 2) sample_db)))
       = None"
  using logout_idempotent [of sample_world "get_request Rule_logout None" "session_of None sample_db"]
    logout_idempotent [of sample_world "get_request Rule_logout None" "session_of (Some 2) sample_db"]
  by (simp add: session_of_def)

text \<open>
  C10. Whenever \<^verbatim>\<open>edit_post\<close> succeeds, that is, answers with a redirect, the post
  table has the same rows in the same order, each with the key and the date it had; a row
  with another key is unchanged, and in the row with the key of the request the title,
  subtitle, image URL, author and body are the submitted ones. The user table, the comment
  table, the session and the flashed messages are unchanged.
\<close>

theorem edit_post_frame:
  assumes "edit_post pid w r s = (Redirect ep a, s')"
  shows "ep = Ep_show_post \<and> a = Some pid
         \<and> users (db s') = users (db s) \<and> comments (db s') = comments (db s)
         \<and> session_user_id s' = session_user_id s \<and> flashes s' = flashes s
         \<and> length (blog_posts (db s')) = length (blog_posts (db s))
         \<and> (\<forall>i < length (blog_posts (db s)).
               post_id (blog_posts (db s') ! i) = post_id (blog_posts (db s) ! i)
               \<and> post_date (blog_posts (db s') ! i) = post_date (blog_posts (db s) ! i)
               \<and> (post_id (blog_posts (db s) ! i) \<noteq> pid
                    \<longrightarrow> blog_posts (db s') ! i = blog_posts (db s) ! i)
               \<and> (post_id (blog_posts (db s) ! i) = pid
                    \<longrightarrow> blog_posts (db s') ! i
                        = (blog_posts (db s) ! i)
                            \<lparr>post_title := title_data r, post_subtitle := subtitle_data r,
                             post_img_url := img_url_data r,
                             post_author_id :=
                               (case author_data r of Author_user uid \<Rightarrow> Some uid | _ \<Rightarrow> None),
                             post_body := body_data r\<rparr>))"
proof -
  from assms obtain p where p: "blog_post_query_get pid (db s) = Inr (Some p)"
    by (auto simp: edit_post_def split: sum.splits option.splits)
  then have k: "post_id p = pid"
    using blog_post_query_get_row by blast
  from assms p k have v: "validate_on_submit r" and o: "author_data r \<noteq> Author_other"
    by (auto simp: edit_post_def split: if_splits author_value.splits)
  from assms p k v o
  have u: "update_blog_post pid (title_data r) (subtitle_data r) (img_url_data r)
             (case author_data r of Author_user uid \<Rightarrow> Some uid | _ \<Rightarrow> None)
             (body_data r) (db s) = Inr (db s')"
    and e: "ep = Ep_show_post" "a = Some pid"
    and f: "session_user_id s' = session_user_id s" "flashes s' = flashes s"
    by (auto simp: edit_post_def split: author_value.splits sum.splits)
  from u have d: "db s' = (db s)\<lparr>blog_posts :=
        map (\<lambda>q. if post_id q = pid
                  then q\<lparr>post_title := title_data r, post_subtitle := subtitle_data r,
                         post_img_url := img_url_data r,
                         post_author_id :=
                           (case author_data r of Author_user uid \<Rightarrow> Some uid | _ \<Rightarrow> None),
                         post_body := body_data r\<rparr>
                  else q) (blog_posts (db s))\<rparr>"
    by (simp add: update_blog_post_def split: if_splits)
  show ?thesis
    using e f by (simp add: d)
qed

theorem edit_post_frame_witness:
  "blog_posts (db (snd (edit_post 1 sample_world
        ((post_request Rule_edit_post (Some 1))
           \<lparr>title_data := ''Agaves'', author_data := Author_user 2\<rparr>)
        (session_of (Some 1) sample_db))))
     = [\<lparr>post_id = 1, post_author_id = Some 2, post_title = ''Agaves'', post_subtitle = [],
         post_date = ''October 20, 2026'', post_body = [], post_img_url = []\<rparr>]"
proof -
  let ?r = "(post_request Rule_edit_post (Some 1))\<lparr>title_data := ''Agaves'', author_data := Author_user 2\<rparr>"
  let ?s = "session_of (Some 1) sample_db"
  have g: "blog_post_query_get 1 (db ?s) = Inr (Some first_post)"
    by (simp add: blog_post_query_get_def max_key_def session_of_def sample_db_def
        first_post_def)
  have v: "validate_on_submit ?r"
    by (simp add: validate_on_submit_def post_request_def get_request_def)
  have o: "author_data ?r \<noteq> Author_other"
    by simp
  have t: "\<not> list_ex (\<lambda>q. post_id q \<noteq> 1 \<and> post_title q = title_data ?r) (blog_posts (db ?s))"
    by (simp add: session_of_def sample_db_def first_post_def)
  obtain s' where run: "edit_post 1 sample_world ?r ?s = (Redirect Ep_show_post (Some 1), s')"
    using edit_post_succeeds [OF g v o t] by blast
  have l: "blog_posts (db ?s) = [first_post]"
    by (simp add: session_of_def sample_db_def)
  from edit_post_frame [OF run] l
  have "length (blog_posts (db s')) = 1"
    and "blog_posts (db s') ! 0
           = first_post\<lparr>post_title := title_data ?r, post_subtitle := subtitle_data ?r,
                        post_img_url := img_url_data ?r, post_author_id := Some 2,
                        post_body := body_data ?r\<rparr>"
    by (simp_all add: first_post_def)
  then have "blog_posts (db s')
               = [first_post\<lparr>post_title := title_data ?r, post_subtitle := subtitle_data ?r,
                             post_img_url := img_url_data ?r, post_author_id := Some 2,
                             post_body := body_data ?r\<rparr>]"
    by (cases "blog_posts (db s')") simp_all
  with run show ?thesis
    by (simp add: first_post_def post_request_def get_request_def)
qed

end
